theory Spec2Isabelle
  imports Main "HOL-Library.Word"
begin

section \<open>The Swarm node module of puppeth: status check, artifact rendering, deployment\<close>

text \<open>
  The development embeds \<^verbatim>\<open>cmd/puppeth/wizard_swarm.go\<close>, which holds two Go files: the
  wizard step \<^verbatim>\<open>(*wizard).deploySwarm\<close> and the module functions \<^verbatim>\<open>deploySwarm\<close>,
  \<^verbatim>\<open>checkSwarmNode\<close> with the two templates and the struct \<^verbatim>\<open>swarmInfos\<close>.

  Go strings and byte slices are \<open>string\<close> (a list of 8-bit characters, one per byte).
  The fields of type \<^verbatim>\<open>int\<close> and \<^verbatim>\<open>int64\<close> are only stored, compared and printed, never
  part of an arithmetic operation, so they are \<open>int\<close>; the one place that saturates
  (\<^verbatim>\<open>strconv.Atoi\<close>) has the bounds written out.
\<close>

subsection \<open>Library functions of Go used by the module\<close>

definition digit :: "nat \<Rightarrow> char" where
  "digit n = ''0123456789'' ! (n mod 10)"

fun showNat :: "nat \<Rightarrow> string" where
  "showNat n = (if n < 10 then [digit n] else showNat (n div 10) @ [digit n])"

declare showNat.simps [simp del]

text \<open>The decimal form of an integer: \<^verbatim>\<open>%d\<close>, \<^verbatim>\<open>strconv.Itoa\<close> and the printing of an
  integer by \<^verbatim>\<open>text/template\<close>.\<close>

definition showInt :: "int \<Rightarrow> string" where
  "showInt i = (if i < 0 then CHR ''-'' # showNat (nat (- i)) else showNat (nat i))"

definition isDigit :: "char \<Rightarrow> bool" where
  "isDigit c = (c \<in> set ''0123456789'')"

definition digitVal :: "char \<Rightarrow> int" where
  "digitVal c = int (of_char c) - 48"

text \<open>The loop of \<^verbatim>\<open>strconv.ParseUint\<close> for base 10 and 64 bits, from the value \<open>n\<close> read so
  far: a byte that is no digit is a syntax error (\<open>None\<close>); a digit that would take the
  value beyond \<open>2 ^ 64 - 1\<close> ends the loop at once with that bound (the range error),
  whatever follows it.\<close>

fun parseUint :: "int \<Rightarrow> string \<Rightarrow> int option" where
  "parseUint n [] = Some n"
| "parseUint n (c # cs) =
     (if \<not> isDigit c then None
      else if n \<ge> 1844674407370955162 then Some 18446744073709551615
      else if n * 10 + digitVal c > 18446744073709551615 then Some 18446744073709551615
      else parseUint (n * 10 + digitVal c) cs)"

text \<open>\<^verbatim>\<open>strconv.Atoi\<close> with its error dropped, as \<^verbatim>\<open>totalPeers, _ := strconv.Atoi(..)\<close>
  does: an optional sign and decimal digits; a syntax error gives 0, a value out of the
  range of a 64-bit \<^verbatim>\<open>int\<close> (a range error of \<^verbatim>\<open>ParseUint\<close> among them) gives the nearest
  bound.\<close>

definition Atoi :: "string \<Rightarrow> int" where
  "Atoi s =
     (let neg = (s \<noteq> [] \<and> hd s = CHR ''-'');
          ds = (if s \<noteq> [] \<and> (hd s = CHR ''-'' \<or> hd s = CHR ''+'') then tl s else s)
      in if ds = [] then 0
         else case parseUint 0 ds of
                None \<Rightarrow> 0
              | Some un \<Rightarrow>
                  if \<not> neg \<and> un \<ge> 2 ^ 63 then 2 ^ 63 - 1
                  else if neg \<and> un > 2 ^ 63 then - (2 ^ 63)
                  else if neg then - un else un)"

text \<open>The white space of \<^verbatim>\<open>unicode.IsSpace\<close> in UTF-8: the six ASCII characters, U+0085,
  U+00A0, U+1680, U+2000 to U+200A, U+2028, U+2029, U+202F, U+205F and U+3000.\<close>

definition spaceSeqs :: "string list" where
  "spaceSeqs =
     [[CHR 0x09], [CHR 0x0A], [CHR 0x0B], [CHR 0x0C], [CHR 0x0D], [CHR 0x20],
      [CHR 0xC2, CHR 0x85], [CHR 0xC2, CHR 0xA0], [CHR 0xE1, CHR 0x9A, CHR 0x80],
      [CHR 0xE2, CHR 0x80, CHR 0x80], [CHR 0xE2, CHR 0x80, CHR 0x81],
      [CHR 0xE2, CHR 0x80, CHR 0x82], [CHR 0xE2, CHR 0x80, CHR 0x83],
      [CHR 0xE2, CHR 0x80, CHR 0x84], [CHR 0xE2, CHR 0x80, CHR 0x85],
      [CHR 0xE2, CHR 0x80, CHR 0x86], [CHR 0xE2, CHR 0x80, CHR 0x87],
      [CHR 0xE2, CHR 0x80, CHR 0x88], [CHR 0xE2, CHR 0x80, CHR 0x89],
      [CHR 0xE2, CHR 0x80, CHR 0x8A], [CHR 0xE2, CHR 0x80, CHR 0xA8],
      [CHR 0xE2, CHR 0x80, CHR 0xA9], [CHR 0xE2, CHR 0x80, CHR 0xAF],
      [CHR 0xE2, CHR 0x81, CHR 0x9F], [CHR 0xE3, CHR 0x80, CHR 0x80]]"

text \<open>The number of bytes of the first of the sequences \<open>qs\<close> that \<open>s\<close> starts with,
  0 when it starts with none (or only with an empty one).\<close>

definition matchLen :: "string list \<Rightarrow> string \<Rightarrow> nat" where
  "matchLen qs s = (case find (\<lambda>q. take (length q) s = q) qs of None \<Rightarrow> 0 | Some q \<Rightarrow> length q)"

function trimLeft :: "string list \<Rightarrow> string \<Rightarrow> string" where
  "trimLeft qs s = (if matchLen qs s = 0 \<or> s = [] then s else trimLeft qs (drop (matchLen qs s) s))"
  by pat_completeness auto
termination
  by (relation "measure (\<lambda>(qs, s). length s)") auto

declare trimLeft.simps [simp del]

text \<open>\<^verbatim>\<open>bytes.TrimSpace\<close>: the leading and the trailing white space is cut off.\<close>

definition TrimSpace :: "string \<Rightarrow> string" where
  "TrimSpace s = rev (trimLeft (map rev spaceSeqs) (rev (trimLeft spaceSeqs s)))"

text \<open>\<^verbatim>\<open>bytes.Trim(s, cutset)\<close> for a cutset of ASCII characters.\<close>

definition Trim :: "string \<Rightarrow> string \<Rightarrow> string" where
  "Trim s cutset = rev (dropWhile (\<lambda>c. c \<in> set cutset) (rev (dropWhile (\<lambda>c. c \<in> set cutset) s)))"

text \<open>\<^verbatim>\<open>strings.Join\<close>.\<close>

fun Join :: "string list \<Rightarrow> string \<Rightarrow> string" where
  "Join [] sep = []"
| "Join [x] sep = x"
| "Join (x # y # ys) sep = x @ sep @ Join (y # ys) sep"

text \<open>Reading a Go map: a missing key gives the zero value of the value type.\<close>

definition lookupStr :: "(string \<rightharpoonup> string) \<Rightarrow> string \<Rightarrow> string" where
  "lookupStr m k = (case m k of None \<Rightarrow> [] | Some v \<Rightarrow> v)"

definition lookupInt :: "(string \<rightharpoonup> int) \<Rightarrow> string \<Rightarrow> int" where
  "lookupInt m k = (case m k of None \<Rightarrow> 0 | Some v \<Rightarrow> v)"

subsection \<open>Errors, the remote channel and the container inspector\<close>

text \<open>
  Modelled from the spec: the error values are declared in a file of the package that is
  not part of the sources at hand. \<open>ErrServiceOffline\<close> and \<open>ErrServiceUnreachable\<close> are
  the two that \<^verbatim>\<open>checkSwarmNode\<close> names; \<open>NotFound\<close> is what the container inspector
  signals when the container does not exist, and \<open>RemoteCommandFailed\<close> stands for any
  failure of a command, an upload or a stream, with its message.
\<close>

datatype error = NotFound | ErrServiceOffline | ErrServiceUnreachable | RemoteCommandFailed string

text \<open>What \<^verbatim>\<open>inspectContainer\<close> returns for a container: \<^verbatim>\<open>checkSwarmNode\<close> reads the fields
  \<^verbatim>\<open>running\<close>, \<^verbatim>\<open>envvars\<close>, \<^verbatim>\<open>portmap\<close> (its values are stored in an \<^verbatim>\<open>int\<close> field) and
  \<^verbatim>\<open>volumes\<close>.\<close>

record containerInfos =
  running :: bool
  envvars :: "string \<rightharpoonup> string"
  portmap :: "string \<rightharpoonup> int"
  volumes :: "string \<rightharpoonup> string"

text \<open>
  The \<^verbatim>\<open>*sshClient\<close> and the functions that talk through it. Their code is outside the
  sources at hand, so the answers of the remote host are parameters: \<open>Run\<close>, \<open>Upload\<close>
  and \<open>Stream\<close> are the three methods (a Go result \<^verbatim>\<open>([]byte, error)\<close> is a pair whose
  second component is \<open>None\<close> for \<^verbatim>\<open>nil\<close>), \<open>inspectContainer\<close> is the inspector called with
  this client, and \<open>checkPort\<close> is the dial of \<^verbatim>\<open>checkPort(client.server, port)\<close>. One
  invocation of \<^verbatim>\<open>checkSwarmNode\<close> or \<^verbatim>\<open>deploySwarm\<close> never sends the same command twice,
  so a function from the command to its answer is as general as a host with state. The
  files of an upload are listed in the order the code stores them in its map; their
  names are distinct.
\<close>

record sshClient =
  server :: string
  address :: string
  Run :: "string \<Rightarrow> string \<times> error option"
  Upload :: "(string \<times> string) list \<Rightarrow> string \<times> error option"
  Stream :: "string \<Rightarrow> error option"
  inspectContainer :: "string \<Rightarrow> error + containerInfos"
  checkPort :: "string \<Rightarrow> int \<Rightarrow> error option"

subsection \<open>The node configuration and the status check\<close>

record swarmInfos =
  genesis :: string
  network :: int
  datadir :: string
  peersTotal :: int
  port :: int
  bzzPort :: int
  enode :: string
  swarmenode :: string
  bzzAccount :: string
  keyJSON :: string
  keyPass :: string

text \<open>The kind that \<^verbatim>\<open>checkSwarmNode\<close> derives from \<^verbatim>\<open>boot\<close>, and the container name
  \<^verbatim>\<open>fmt.Sprintf("%s_%s_1", network, kind)\<close> that it inspects and runs its commands in.\<close>

definition checkKind :: "bool \<Rightarrow> string" where
  "checkKind boot = (if \<not> boot then ''swarmnode'' else ''bootswarm'')"

definition containerName :: "string \<Rightarrow> string \<Rightarrow> string" where
  "containerName net kind = net @ ''_'' @ kind @ ''_1''"

definition dockerExec :: "string \<Rightarrow> string \<Rightarrow> string \<Rightarrow> string" where
  "dockerExec net kind cmd = ''docker exec '' @ containerName net kind @ '' '' @ cmd"

text \<open>
  \<^verbatim>\<open>checkSwarmNode\<close>. The result \<^verbatim>\<open>(*swarmInfos, error)\<close> is a sum: every error return of
  the source has a \<^verbatim>\<open>nil\<close> snapshot. The reachability probe only writes a warning to the
  log, which is returned beside the result as the list of ports found unreachable.
\<close>

definition checkSwarmNodeLog :: "sshClient \<Rightarrow> string \<Rightarrow> bool \<Rightarrow> int list \<times> (error + swarmInfos)" where
  "checkSwarmNodeLog client net boot =
     (let kind = checkKind boot in
      case inspectContainer client (containerName net kind) of
        Inl err \<Rightarrow> ([], Inl err)
      | Inr infos \<Rightarrow>
          if \<not> running infos then ([], Inl ErrServiceOffline)
          else
            let totalPeers = Atoi (lookupStr (envvars infos) ''TOTAL_PEERS'') in
            case Run client (dockerExec net kind
                   ''geth --exec admin.nodeInfo.id attach /root/.ethereum/bzzd.ipc'') of
              (out1, Some e1) \<Rightarrow> ([], Inl ErrServiceUnreachable)
            | (out1, None) \<Rightarrow>
                let ident = Trim (TrimSpace out1) [CHR 0x22] in
                case Run client (dockerExec net kind ''cat /genesis.json'') of
                  (out2, Some e2) \<Rightarrow> ([], Inl ErrServiceUnreachable)
                | (out2, None) \<Rightarrow>
                    let gen = TrimSpace out2;
                        key = (case Run client (dockerExec net kind ''cat /bzzkey.json'') of
                                 (out3, None) \<Rightarrow> TrimSpace out3 | (out3, Some e3) \<Rightarrow> []);
                        pass = (case Run client (dockerExec net kind ''cat /bzzpass'') of
                                 (out4, None) \<Rightarrow> TrimSpace out4 | (out4, Some e4) \<Rightarrow> []);
                        p = lookupInt (portmap infos) (lookupStr (envvars infos) ''PORT'');
                        warns = (case checkPort client (server client) p of
                                   None \<Rightarrow> [] | Some e5 \<Rightarrow> [p]);
                        stats = \<lparr> genesis = gen, network = 0,
                                  datadir = lookupStr (volumes infos) ''/root/.ethereum'',
                                  peersTotal = totalPeers, port = p, bzzPort = 0,
                                  enode = [], swarmenode = [],
                                  bzzAccount = lookupStr (envvars infos) ''BZZ_NAME'',
                                  keyJSON = key, keyPass = pass \<rparr>
                    in (warns, Inr (stats \<lparr> swarmenode :=
                          ''enode://'' @ ident @ ''@'' @ address client @ '':'' @ showInt (port stats) \<rparr>)))"

definition checkSwarmNode :: "sshClient \<Rightarrow> string \<Rightarrow> bool \<Rightarrow> error + swarmInfos" where
  "checkSwarmNode client net boot = snd (checkSwarmNodeLog client net boot)"

subsection \<open>Rendering: the two templates\<close>

text \<open>
  The values that the code puts into the data map of a template, and the part of
  \<^verbatim>\<open>text/template\<close> that the two templates use: literal text, the field of the data map
  \<^verbatim>\<open>{{.Key}}\<close> and the conditional \<^verbatim>\<open>{{if .Key}} .. {{end}}\<close>. A key that the map lacks
  prints as \<^verbatim>\<open><no value>\<close> and counts as false in a conditional, as do the empty string,
  0 and \<^verbatim>\<open>false\<close>. The package escapes nothing.
\<close>

datatype tval = VInt int | VStr string | VBool bool

datatype node = Text string | Field string | IfField string "node list"

definition printVal :: "tval option \<Rightarrow> string" where
  "printVal v = (case v of None \<Rightarrow> ''<no value>''
                 | Some (VInt i) \<Rightarrow> showInt i
                 | Some (VStr s) \<Rightarrow> s
                 | Some (VBool b) \<Rightarrow> (if b then ''true'' else ''false''))"

definition truth :: "tval option \<Rightarrow> bool" where
  "truth v = (case v of None \<Rightarrow> False
              | Some (VInt i) \<Rightarrow> i \<noteq> 0
              | Some (VStr s) \<Rightarrow> s \<noteq> []
              | Some (VBool b) \<Rightarrow> b)"

fun execNode :: "(string \<rightharpoonup> tval) \<Rightarrow> node \<Rightarrow> string" where
  "execNode d (Text s) = s"
| "execNode d (Field k) = printVal (d k)"
| "execNode d (IfField k body) = (if truth (d k) then concat (map (execNode d) body) else [])"

definition Execute :: "node list \<Rightarrow> (string \<times> tval) list \<Rightarrow> string" where
  "Execute t d = concat (map (execNode (map_of d)) t)"

text \<open>The characters that a string literal cannot hold: the single quote, the backslash
  and the tabulator.\<close>

definition sq :: string where "sq = [CHR 0x27]"
definition bs :: string where "bs = [CHR 0x5C]"
definition tab :: string where "tab = [CHR 0x09]"

text \<open>The template \<^verbatim>\<open>swarmDockerfile\<close>. Its first and its last literal text have a name
  of their own.\<close>

definition dockerfileHead :: string where
  \<open>dockerfileHead =
     ''\<newline>FROM ethereum/client-go:alltools-v1.8.3\<newline>\<newline>'' @
     ''ADD genesis.json /genesis.json\<newline>'' @
     ''ADD bzzkey.json /bzzkey.json\<newline>'' @
     ''ADD bzzpass /bzzpass\<newline>\<newline>'' @
     ''RUN '' @ bs @ ''\<newline>'' @
     tab @ ''echo '' @ sq @ ''mkdir -p /root/.ethereum/keystore/ && cp /bzzkey.json /root/.ethereum/keystore/'' @ sq @
       '' > geth.sh && '' @ bs @ ''\<newline>'' @
     tab @ ''echo $'' @ sq @ ''swarm --bzznetworkid ''\<close>

definition dockerfileTail :: string where
  \<open>dockerfileTail =
     '' --password /bzzpass'' @ sq @ '' >> geth.sh\<newline>\<newline>'' @
     ''ENTRYPOINT ["/bin/sh", "geth.sh"]\<newline>''\<close>

definition swarmDockerfile :: "node list" where
  "swarmDockerfile =
    [Text dockerfileHead,
     Field ''NetworkID'',
     Text '' '',
     IfField ''BzzAccount'' [Text ''--bzzaccount '', Field ''BzzAccount'', Text '' ''],
     Text ''--port '',
     Field ''Port'',
     Text '' --bzzport '',
     Field ''bzzPort'',
     Text '' --maxpeers '',
     Field ''Peers'',
     Text '' '',
     IfField ''SwarmBoot'' [Text ''--bootnodes '', Field ''SwarmBoot''],
     Text dockerfileTail]"

text \<open>The template \<^verbatim>\<open>swarmComposefile\<close>.\<close>

definition swarmComposefile :: "node list" where
  \<open>swarmComposefile =
    [Text (''\<newline>version: '' @ sq @ ''2'' @ sq @ ''\<newline>'' @
           ''services:\<newline>'' @
           ''  ''),
     Field ''Type'',
     Text ('':\<newline>'' @
           ''    build: .\<newline>'' @
           ''    image: ''),
     Field ''Network'',
     Text ''/'',
     Field ''Type'',
     Text (''\<newline>'' @
           ''    ports:\<newline>'' @
           ''      - "''),
     Field ''Port'',
     Text '':'',
     Field ''Port'',
     Text (''"\<newline>'' @
           ''      - "''),
     Field ''Port'',
     Text '':'',
     Field ''Port'',
     Text (''/udp"\<newline>'' @
           ''    volumes:\<newline>'' @
           ''      - ''),
     Field ''Datadir'',
     Text ('':/root/.ethereum\<newline>'' @
           ''    environment:\<newline>'' @
           ''      - PORT=''),
     Field ''bzzPort'',
     Text (''/tcp\<newline>'' @
           ''    logging:\<newline>'' @
           ''      driver: "json-file"\<newline>'' @
           ''      options:\<newline>'' @
           ''        max-size: "1m"\<newline>'' @
           ''        max-file: "10"\<newline>'' @
           ''    restart: always\<newline>'')]\<close>

subsection \<open>Deployment\<close>

text \<open>The kind and the bootnode list after the first statement of \<^verbatim>\<open>deploySwarm\<close>: a
  configuration without \<^verbatim>\<open>swarmenode\<close> is deployed as a boot node, with the list emptied.\<close>

definition deployKind :: "swarmInfos \<Rightarrow> string" where
  "deployKind config = (if swarmenode config = [] then ''swarmboot'' else ''swarmnode'')"

definition deployBoot :: "string list \<Rightarrow> swarmInfos \<Rightarrow> string list" where
  "deployBoot swarmboot config = (if swarmenode config = [] then [] else swarmboot)"

definition dockerfileData :: "string list \<Rightarrow> swarmInfos \<Rightarrow> (string \<times> tval) list" where
  "dockerfileData swarmboot config =
     [(''NetworkID'', VInt (network config)),
      (''Port'', VInt (port config)),
      (''Peers'', VInt (peersTotal config)),
      (''bzzPort'', VInt (bzzPort config)),
      (''SwarmBoot'', VStr (Join (deployBoot swarmboot config) '','')),
      (''Unlock'', VBool (keyJSON config \<noteq> [])),
      (''BzzAccount'', VStr (bzzAccount config))]"

definition composefileData :: "string \<Rightarrow> swarmInfos \<Rightarrow> (string \<times> tval) list" where
  "composefileData net config =
     [(''Type'', VStr (deployKind config)),
      (''Datadir'', VStr (datadir config)),
      (''Network'', VStr net),
      (''Port'', VInt (port config)),
      (''TotalPeers'', VInt (peersTotal config)),
      (''BzzAccount'', VStr (bzzAccount config))]"

definition renderDockerfile :: "string list \<Rightarrow> swarmInfos \<Rightarrow> string" where
  "renderDockerfile swarmboot config = Execute swarmDockerfile (dockerfileData swarmboot config)"

definition renderComposefile :: "string \<Rightarrow> swarmInfos \<Rightarrow> string" where
  "renderComposefile net config = Execute swarmComposefile (composefileData net config)"

text \<open>\<^verbatim>\<open>filepath.Join(workdir, name)\<close> for a working directory that is a decimal number
  and a plain file name.\<close>

definition pathJoin :: "string \<Rightarrow> string \<Rightarrow> string" where
  "pathJoin dir name = dir @ ''/'' @ name"

text \<open>The files of a deployment, in the order the code stores them in its map. The
  working directory is the decimal form of \<open>r\<close>, the value of \<^verbatim>\<open>rand.Int63()\<close>.\<close>

definition deployFiles :: "string \<Rightarrow> string list \<Rightarrow> swarmInfos \<Rightarrow> int \<Rightarrow> (string \<times> string) list" where
  "deployFiles net swarmboot config r =
     (let workdir = showInt r in
      [(pathJoin workdir ''Dockerfile'', renderDockerfile swarmboot config),
       (pathJoin workdir ''docker-compose.yaml'', renderComposefile net config),
       (pathJoin workdir ''genesis.json'', genesis config)] @
      (if keyJSON config \<noteq> []
       then [(pathJoin workdir ''bzzkey.json'', keyJSON config),
             (pathJoin workdir ''bzzpass'', keyPass config)]
       else []))"

text \<open>What \<^verbatim>\<open>deploySwarm\<close> asks of the client, in the order of the calls.\<close>

datatype action = DoUpload "(string \<times> string) list" | DoStream string | DoRun string

definition buildCommand :: "string \<Rightarrow> string \<Rightarrow> bool \<Rightarrow> string" where
  "buildCommand workdir net nocache =
     (if nocache
      then ''cd '' @ workdir @ '' && docker-compose -p '' @ net @
           '' build --pull --no-cache && docker-compose -p '' @ net @ '' up -d --force-recreate''
      else ''cd '' @ workdir @ '' && docker-compose -p '' @ net @ '' up -d --build --force-recreate'')"

text \<open>
  \<^verbatim>\<open>deploySwarm\<close>: the result \<^verbatim>\<open>([]byte, error)\<close> with the calls made on the client. The
  deferred \<^verbatim>\<open>client.Run("rm -rf " + workdir)\<close> is registered after a successful upload
  only; it runs when the function returns, after the stream, and what it returns is
  dropped. A \<^verbatim>\<open>nil\<close> slice is the empty string.
\<close>

definition deploySwarm ::
  "sshClient \<Rightarrow> string \<Rightarrow> string list \<Rightarrow> swarmInfos \<Rightarrow> bool \<Rightarrow> int \<Rightarrow> (string \<times> error option) \<times> action list" where
  "deploySwarm client net swarmboot config nocache r =
     (let workdir = showInt r;
          files = deployFiles net swarmboot config r
      in case Upload client files of
           (out, Some err) \<Rightarrow> ((out, Some err), [DoUpload files])
         | (out, None) \<Rightarrow>
             (let cmd = buildCommand workdir net nocache;
                  res = Stream client cmd;
                  cleanup = Run client (''rm -rf '' @ workdir)
              in (([], res), [DoUpload files, DoStream cmd, DoRun (''rm -rf '' @ workdir)])))"

subsection \<open>The wizard step\<close>

text \<open>
  \<^verbatim>\<open>(*wizard).deploySwarm\<close> asks the operator for the fields of the configuration and
  calls \<^verbatim>\<open>deploySwarm\<close>. The wizard holds the network name, the genesis of the network
  (of which the step uses \<^verbatim>\<open>json.MarshalIndent(w.conf.Genesis, "", "  ")\<close> and
  \<^verbatim>\<open>w.conf.Genesis.Config.ChainId.Int64()\<close>), the boot nodes and the clients of the
  known servers.
\<close>

type_synonym address = "160 word"

record genesisConf =
  marshalled :: string
  chainId :: int

record wizard =
  w_network :: string
  conf_Genesis :: "genesisConf option"
  conf_bootnodes :: "string list"
  servers :: "string \<rightharpoonup> sshClient"

text \<open>
  The readers of the wizard are outside the sources at hand, so the operator is a
  parameter: each reader takes the state of the operator (what was typed and shown so
  far) and returns the answer with the next state. A reader with a default gets the
  default as its first argument. \<open>readAddress\<close> answers \<open>None\<close> for \<^verbatim>\<open>nil\<close>.
\<close>

record 'o operator =
  selectServer :: "'o \<Rightarrow> string \<times> 'o"
  readString :: "'o \<Rightarrow> string \<times> 'o"
  readDefaultString :: "string \<Rightarrow> 'o \<Rightarrow> string \<times> 'o"
  readDefaultInt :: "int \<Rightarrow> 'o \<Rightarrow> int \<times> 'o"
  readJSON :: "'o \<Rightarrow> string \<times> 'o"
  readPassword :: "'o \<Rightarrow> string \<times> 'o"
  readAddress :: "'o \<Rightarrow> address option \<times> 'o"
  readDefaultAddress :: "address \<Rightarrow> 'o \<Rightarrow> address \<times> 'o"

text \<open>The functions of the packages \<^verbatim>\<open>common\<close> and \<^verbatim>\<open>keystore\<close> that the step calls:
  \<^verbatim>\<open>common.HexToAddress\<close>, \<^verbatim>\<open>Address.Hex\<close>, and whether \<^verbatim>\<open>keystore.DecryptKey\<close> succeeds
  on a key and a passphrase.\<close>

record ethlib =
  HexToAddress :: "string \<Rightarrow> address"
  Hex :: "address \<Rightarrow> string"
  DecryptKey :: "string \<Rightarrow> string \<Rightarrow> bool"

text \<open>The questions put to the operator, each with the default it offers, in the order
  they are asked.\<close>

datatype prompt = AskServer | AskString | AskDefaultString string | AskDefaultInt int | AskJSON
  | AskPassword | AskAddress | AskDefaultAddress address

type_synonym 'o io = "prompt list \<times> 'o"

definition ask :: "prompt \<Rightarrow> ('o \<Rightarrow> 'a \<times> 'o) \<Rightarrow> 'o io \<Rightarrow> 'a \<times> 'o io" where
  "ask p rd io = (case rd (snd io) of (v, st) \<Rightarrow> (v, (fst io @ [p], st)))"

text \<open>The loop \<^verbatim>\<open>for { if address := w.readAddress(); address != nil { .. break } }\<close>: it
  runs until the operator gives an address, and forever when the operator never does.
  The first argument bounds the rounds that are followed: the loop that has not ended
  after that many rounds gives \<open>None\<close>, with the questions asked so far.\<close>

fun readAddressLoop :: "nat \<Rightarrow> 'o operator \<Rightarrow> 'o io \<Rightarrow> address option \<times> 'o io" where
  "readAddressLoop 0 opr io = (None, io)"
| "readAddressLoop (Suc n) opr io =
     (case ask AskAddress (readAddress opr) io of
        (Some a, io') \<Rightarrow> (Some a, io')
      | (None, io') \<Rightarrow> readAddressLoop n opr io')"

text \<open>How the step ends: without a genesis, without a server, with a server that has no
  client (a \<^verbatim>\<open>nil\<close> client), with a key that the passphrase does not decrypt, still in
  the address loop after the rounds that are followed, or with the call of
  \<^verbatim>\<open>deploySwarm\<close> on the merged configuration (with the flag \<^verbatim>\<open>nocache\<close> and what the call
  returned and did).\<close>

datatype outcome = NoGenesis | NoServer | NilClient | DecryptFailed | AddressPending
  | Called swarmInfos bool "(string \<times> error option) \<times> action list"

text \<open>The configuration \<^verbatim>\<open>&swarmInfos{port: 30399, peersTotal: 50, bzzPort:8500}\<close> that the
  step starts from when the status check fails; the two branches of \<^verbatim>\<open>if boot\<close> assign the
  same one.\<close>

definition defaultInfos :: swarmInfos where
  "defaultInfos = \<lparr> genesis = [], network = 0, datadir = [], peersTotal = 50, port = 30399,
     bzzPort = 8500, enode = [], swarmenode = [], bzzAccount = [], keyJSON = [], keyPass = [] \<rparr>"

text \<open>
  \<^verbatim>\<open>(*wizard).deploySwarm\<close>, up to the call of \<^verbatim>\<open>deploySwarm\<close>; what follows the call only
  reports its result. \<open>n\<close> is the number of rounds of the address loop that are
  followed; \<open>r\<close> is the random number of the deployment. The result is how the step
  ends, with the questions asked and the state of the operator.
\<close>

definition wizard_deploySwarm ::
  "nat \<Rightarrow> ethlib \<Rightarrow> 'o operator \<Rightarrow> wizard \<Rightarrow> bool \<Rightarrow> int \<Rightarrow> 'o io \<Rightarrow> outcome \<times> 'o io" where
  "wizard_deploySwarm n lib opr w boot r io0 =
     (case conf_Genesis w of
        None \<Rightarrow> (NoGenesis, io0)
      | Some gen \<Rightarrow>
         (case ask AskServer (selectServer opr) io0 of (srv, io1) \<Rightarrow>
          if srv = [] then (NoServer, io1)
          else case servers w srv of
            None \<Rightarrow> (NilClient, io1)
          | Some client \<Rightarrow>
             (let chk = checkSwarmNode client (w_network w) boot;
                  infos0 = (case chk of Inl err \<Rightarrow> defaultInfos | Inr found \<Rightarrow> found);
                  existed = (case chk of Inl err \<Rightarrow> False | Inr found \<Rightarrow> True);
                  infos1 = infos0 \<lparr> genesis := marshalled gen, network := chainId gen \<rparr>
              in case (if datadir infos1 = [] then ask AskString (readString opr) io1
                       else ask (AskDefaultString (datadir infos1))
                              (readDefaultString opr (datadir infos1)) io1) of (dd, io2) \<Rightarrow>
                 case ask (AskDefaultInt (port infos1)) (readDefaultInt opr (port infos1)) io2 of (p, io3) \<Rightarrow>
                 case ask (AskDefaultInt (bzzPort infos1)) (readDefaultInt opr (bzzPort infos1)) io3 of (bp, io4) \<Rightarrow>
                 case ask (AskDefaultInt (peersTotal infos1)) (readDefaultInt opr (peersTotal infos1)) io4 of (pt, io5) \<Rightarrow>
                 (let infos2 = infos1 \<lparr> datadir := dd, port := p, bzzPort := bp, peersTotal := pt \<rparr> in
                  case (if keyJSON infos2 = []
                        then (case ask AskJSON (readJSON opr) io5 of (kj, io6) \<Rightarrow>
                              case ask AskPassword (readPassword opr) io6 of (kp, io7) \<Rightarrow>
                                (infos2 \<lparr> keyJSON := kj, keyPass := kp \<rparr>, DecryptKey lib kj kp, io7))
                        else (infos2, True, io5)) of (infos3, ok, io7) \<Rightarrow>
                  if \<not> ok then (DecryptFailed, io7)
                  else
                    case (if bzzAccount infos3 = []
                          then readAddressLoop n opr io7
                          else (case ask (AskDefaultAddress (HexToAddress lib (bzzAccount infos3)))
                                  (readDefaultAddress opr (HexToAddress lib (bzzAccount infos3))) io7 of
                                  (a, io8) \<Rightarrow> (Some a, io8))) of
                      (None, io8) \<Rightarrow> (AddressPending, io8)
                    | (Some a, io8) \<Rightarrow>
                       (let infos4 = infos3 \<lparr> bzzAccount := Hex lib a \<rparr> in
                        case (if existed
                              then (case ask (AskDefaultString ''n'') (readDefaultString opr ''n'') io8 of
                                      (ans, io9) \<Rightarrow> (ans \<noteq> ''n'', io9))
                              else (False, io8)) of (nocache, io9) \<Rightarrow>
                        (Called infos4 nocache
                           (deploySwarm client (w_network w) (conf_bootnodes w) infos4 nocache r),
                         io9))))))"

subsection \<open>Substrings\<close>

text \<open>Whether \<open>sub\<close> occurs in \<open>s\<close> as a run of consecutive bytes (\<^verbatim>\<open>strings.Contains\<close>).\<close>

fun Contains :: "string \<Rightarrow> string \<Rightarrow> bool" where
  "Contains [] sub = (sub = [])"
| "Contains (c # cs) sub = (take (length sub) (c # cs) = sub \<or> Contains cs sub)"

subsection \<open>Concrete configurations, hosts and operators\<close>

text \<open>A configuration without a node identity (it is deployed as a boot node), with a
  key and the passphrase \<open>password\<close>, and the same configuration with an identity.\<close>

definition bootCfg :: swarmInfos where
  "bootCfg = \<lparr> genesis = ''{}'', network = 1337, datadir = ''/data'', peersTotal = 50,
     port = 30399, bzzPort = 8500, enode = [], swarmenode = [],
     bzzAccount = ''0x00000000000000000000000000000000000000A1'',
     keyJSON = ''{key}'', keyPass = ''password'' \<rparr>"

definition peerCfg :: swarmInfos where
  "peerCfg = bootCfg \<lparr> swarmenode := ''enode://abcd@10.0.0.1:30399'' \<rparr>"

text \<open>A running container whose environment is exactly \<open>TOTAL_PEERS = 50\<close> and whose port
  map is exactly \<open>30303 \<mapsto> 31000\<close>, and the same container with \<open>PORT = 30303\<close> in its
  environment as well.\<close>

definition scenarioInfos :: containerInfos where
  "scenarioInfos = \<lparr> running = True, envvars = [''TOTAL_PEERS'' \<mapsto> ''50''],
     portmap = [''30303'' \<mapsto> 31000], volumes = Map.empty \<rparr>"

definition scenarioPortInfos :: containerInfos where
  "scenarioPortInfos = scenarioInfos \<lparr> envvars := [''TOTAL_PEERS'' \<mapsto> ''50'', ''PORT'' \<mapsto> ''30303''] \<rparr>"

text \<open>A host on which every command, upload and stream succeeds and every container is
  the running container of the scenario; the commands answer with a quoted node
  identity.\<close>

definition okClient :: sshClient where
  \<open>okClient = \<lparr> server = ''host'', address = ''10.0.0.1'',
     Run = (\<lambda>cmd. (''"abcd"\<newline>'', None)),
     Upload = (\<lambda>files. ([], None)),
     Stream = (\<lambda>cmd. None),
     inspectContainer = (\<lambda>name. Inr scenarioInfos),
     checkPort = (\<lambda>srv p. None) \<rparr>\<close>

definition scenarioSnapshot :: swarmInfos where
  \<open>scenarioSnapshot = \<lparr> genesis = ''"abcd"'', network = 0, datadir = [], peersTotal = 50,
     port = 0, bzzPort = 0, enode = [], swarmenode = ''enode://abcd@10.0.0.1:0'',
     bzzAccount = [], keyJSON = ''"abcd"'', keyPass = ''"abcd"'' \<rparr>\<close>

text \<open>Hosts without the container, with a stopped container, and with a running container
  in which no command succeeds.\<close>

definition missingClient :: sshClient where
  "missingClient = okClient \<lparr> inspectContainer := (\<lambda>name. Inl NotFound) \<rparr>"

definition stoppedClient :: sshClient where
  "stoppedClient = okClient \<lparr> inspectContainer := (\<lambda>name. Inr (scenarioInfos \<lparr> running := False \<rparr>)) \<rparr>"

definition muteClient :: sshClient where
  "muteClient = okClient \<lparr> Run := (\<lambda>cmd. ([], Some (RemoteCommandFailed ''exit status 1''))) \<rparr>"

text \<open>Hosts on which the build fails after the upload (and the removal of the working
  directory fails as well), and on which the upload fails.\<close>

definition buildFailClient :: sshClient where
  "buildFailClient = okClient \<lparr>
     Stream := (\<lambda>cmd. Some (RemoteCommandFailed ''build failed'')),
     Run := (\<lambda>cmd. ([], Some (RemoteCommandFailed ''rm failed''))) \<rparr>"

definition uploadFailClient :: sshClient where
  "uploadFailClient = okClient \<lparr> Upload := (\<lambda>files. (''partial'', Some (RemoteCommandFailed ''scp failed''))) \<rparr>"

text \<open>A host that has exactly the container that the deployment of \<open>bootCfg\<close> to the
  network \<open>mynet\<close> creates: the service of the project \<open>mynet\<close> named by \<open>deployKind\<close>.\<close>

definition deployedClient :: sshClient where
  "deployedClient = okClient \<lparr> inspectContainer :=
     (\<lambda>name. if name = containerName ''mynet'' (deployKind bootCfg) then Inr scenarioInfos
              else Inl NotFound) \<rparr>"




definition acceptAll :: "unit operator" where
  "acceptAll = \<lparr> selectServer = (\<lambda>st. (''host'', st)),
     readString = (\<lambda>st. (''/data'', st)),
     readDefaultString = (\<lambda>d st. (d, st)),
     readDefaultInt = (\<lambda>d st. (d, st)),
     readJSON = (\<lambda>st. (''{key}'', st)),
     readPassword = (\<lambda>st. (''secret'', st)),
     readAddress = (\<lambda>st. (Some 161, st)),
     readDefaultAddress = (\<lambda>d st. (d, st)) \<rparr>"

definition someLib :: ethlib where
  "someLib = \<lparr> HexToAddress = (\<lambda>s. 161),
     Hex = (\<lambda>a. ''0x00000000000000000000000000000000000000A1''),
     DecryptKey = (\<lambda>k p. True) \<rparr>"

text \<open>The wizard of the network \<open>net\<close> whose server runs the container of the scenario,
  which reports neither a data directory nor an account; an operator who gives no
  address at all; and what the first wizard hands to \<^verbatim>\<open>deploySwarm\<close> for either node.\<close>

definition plainWizard :: wizard where
  "plainWizard = \<lparr> w_network = ''net'',
     conf_Genesis = Some \<lparr> marshalled = ''{new}'', chainId = 7 \<rparr>,
     conf_bootnodes = [], servers = [''host'' \<mapsto> okClient] \<rparr>"

definition noAddress :: "unit operator" where
  "noAddress = acceptAll \<lparr> readAddress := (\<lambda>st. (None, st)) \<rparr>"



section \<open>Properties\<close>

subsection \<open>Library functions on the inputs of the examples\<close>

lemma TrimSpace_ident: \<open>TrimSpace ''"abcd"\<newline>'' = ''"abcd"''\<close>
  by (simp add: TrimSpace_def trimLeft.simps matchLen_def spaceSeqs_def)

lemma Trim_ident: \<open>Trim ''"abcd"'' [CHR 0x22] = ''abcd''\<close>
  by (simp add: Trim_def)

lemma TrimSpace_old: "TrimSpace ''{old}'' = ''{old}''"
  by (simp add: TrimSpace_def trimLeft.simps matchLen_def spaceSeqs_def)

lemma TrimSpace_key: "TrimSpace ''{key}'' = ''{key}''"
  by (simp add: TrimSpace_def trimLeft.simps matchLen_def spaceSeqs_def)

lemma TrimSpace_secret: "TrimSpace ''secret'' = ''secret''"
  by (simp add: TrimSpace_def trimLeft.simps matchLen_def spaceSeqs_def)

lemma Atoi_50: "Atoi ''50'' = 50"
  by (simp add: Atoi_def isDigit_def digitVal_def)

lemma Atoi_25: "Atoi ''25'' = 25"
  by (simp add: Atoi_def isDigit_def digitVal_def)

lemma showInt_0: "showInt 0 = ''0''"
  by (simp add: showInt_def showNat.simps digit_def)

lemma showInt_42: "showInt 42 = ''42''"
  by (simp add: showInt_def showNat.simps digit_def)

lemma showInt_50: "showInt 50 = ''50''"
  by (simp add: showInt_def showNat.simps digit_def)

lemma showInt_1337: "showInt 1337 = ''1337''"
  by (simp add: showInt_def showNat.simps digit_def)

lemma showInt_8500: "showInt 8500 = ''8500''"
  by (simp add: showInt_def showNat.simps digit_def)

lemma showInt_30399: "showInt 30399 = ''30399''"
  by (simp add: showInt_def showNat.simps digit_def)

lemmas showInt_examples = showInt_0 showInt_42 showInt_50 showInt_1337 showInt_8500 showInt_30399

lemmas check_simps = checkSwarmNode_def checkSwarmNodeLog_def Let_def lookupStr_def lookupInt_def
  containerName_def checkKind_def dockerExec_def
  TrimSpace_ident Trim_ident TrimSpace_old TrimSpace_key TrimSpace_secret Atoi_50 Atoi_25 showInt_0

subsection \<open>Decimal forms and substrings\<close>

lemma digit_in: "digit n \<in> set ''0123456789''"
  unfolding digit_def by (rule nth_mem) simp

lemma showNat_chars: "set (showNat n) \<subseteq> set ''0123456789''"
proof (induction n rule: showNat.induct)
  case (1 n)
  show ?case
  proof (cases "n < 10")
    case True
    then show ?thesis using digit_in [of n] by (subst showNat.simps) simp
  next
    case False
    then show ?thesis using 1 digit_in [of n] by (subst showNat.simps) simp
  qed
qed

lemma showInt_chars: "set (showInt i) \<subseteq> set ''-0123456789''"
proof (cases "i < 0")
  case True
  then show ?thesis using showNat_chars [of "nat (- i)"] by (simp add: showInt_def subset_iff)
next
  case False
  then show ?thesis using showNat_chars [of "nat i"] by (simp add: showInt_def subset_iff)
qed

lemma Contains_iff: "Contains s sub \<longleftrightarrow> (\<exists>ps ss. s = ps @ sub @ ss)"
proof (induction s)
  case Nil
  show ?case by simp
next
  case (Cons c cs)
  show ?case
  proof
    assume "Contains (c # cs) sub"
    then consider "take (length sub) (c # cs) = sub" | "Contains cs sub" by auto
    then show "\<exists>ps ss. c # cs = ps @ sub @ ss"
    proof cases
      case 1
      then have "c # cs = [] @ sub @ drop (length sub) (c # cs)"
        by (metis append_Nil append_take_drop_id)
      then show ?thesis by blast
    next
      case 2
      then obtain ps ss where "cs = ps @ sub @ ss" using Cons.IH by blast
      then have "c # cs = (c # ps) @ sub @ ss" by simp
      then show ?thesis by blast
    qed
  next
    assume "\<exists>ps ss. c # cs = ps @ sub @ ss"
    then obtain ps ss where e: "c # cs = ps @ sub @ ss" by blast
    show "Contains (c # cs) sub"
    proof (cases ps)
      case Nil
      then have "take (length sub) (c # cs) = sub" using e by simp
      then show ?thesis by simp
    next
      case (Cons p ps')
      then have "cs = ps' @ sub @ ss" using e by simp
      then show ?thesis using Cons.IH by auto
    qed
  qed
qed

lemma Contains_set: "Contains s n \<Longrightarrow> set n \<subseteq> set s"
  using Contains_iff [of s n] by auto

text \<open>An occurrence of a string without the byte \<open>c\<close> lies on one side of a \<open>c\<close>.\<close>

lemma Contains_sep:
  assumes "c \<notin> set n" "n \<noteq> []"
  shows "Contains (xs @ c # ys) n \<longleftrightarrow> Contains xs n \<or> Contains ys n"
proof
  assume "Contains (xs @ c # ys) n"
  then obtain ps ss where e: "xs @ c # ys = ps @ n @ ss" using Contains_iff by blast
  then obtain us where "(xs = ps @ us \<and> us @ c # ys = n @ ss) \<or> (xs @ us = ps \<and> c # ys = us @ n @ ss)"
    using append_eq_append_conv2 [of xs "c # ys" ps "n @ ss"] by blast
  then consider (A) "xs = ps @ us" "us @ c # ys = n @ ss" | (B) "xs @ us = ps" "c # ys = us @ n @ ss"
    by blast
  then show "Contains xs n \<or> Contains ys n"
  proof cases
    case A
    then obtain vs where "(us = n @ vs \<and> vs @ c # ys = ss) \<or> (us @ vs = n \<and> c # ys = vs @ ss)"
      using append_eq_append_conv2 [of us "c # ys" n ss] by blast
    then consider (A1) "us = n @ vs" | (A2) "us @ vs = n" "c # ys = vs @ ss" by blast
    then show ?thesis
    proof cases
      case A1
      then have "xs = ps @ n @ vs" using A by simp
      then show ?thesis using Contains_iff by blast
    next
      case A2
      show ?thesis
      proof (cases vs)
        case Nil
        then have "xs = ps @ n @ []" using A A2 by simp
        then show ?thesis using Contains_iff by blast
      next
        case (Cons v vs')
        then have "c \<in> set n" using A2 by auto
        then show ?thesis using assms by simp
      qed
    qed
  next
    case B
    show ?thesis
    proof (cases us)
      case Nil
      then have "c # ys = n @ ss" using B by simp
      then have "c \<in> set n" using assms(2) by (cases n) auto
      then show ?thesis using assms by simp
    next
      case (Cons u us')
      then have "ys = us' @ n @ ss" using B by simp
      then show ?thesis using Contains_iff by blast
    qed
  qed
next
  assume "Contains xs n \<or> Contains ys n"
  then show "Contains (xs @ c # ys) n"
  proof
    assume "Contains xs n"
    then obtain ps ss where "xs = ps @ n @ ss" using Contains_iff by blast
    then have "xs @ c # ys = ps @ n @ (ss @ c # ys)" by simp
    then show ?thesis using Contains_iff by blast
  next
    assume "Contains ys n"
    then obtain ps ss where "ys = ps @ n @ ss" using Contains_iff by blast
    then have "xs @ c # ys = (xs @ c # ps) @ n @ ss" by simp
    then show ?thesis using Contains_iff by blast
  qed
qed

lemma Contains_words:
  assumes "c \<notin> set n" "n \<noteq> []"
  shows "Contains (Join ws [c]) n \<longleftrightarrow> (\<exists>w \<in> set ws. Contains w n)"
proof (induction ws "[c]" rule: Join.induct)
  case 1
  show ?case using assms by simp
next
  case (2 x)
  show ?case by simp
next
  case (3 x y ys)
  have "Contains (x @ c # Join (y # ys) [c]) n \<longleftrightarrow> Contains x n \<or> Contains (Join (y # ys) [c]) n"
    using Contains_sep [OF assms] .
  then show ?case using 3 by simp
qed

lemma showInt_not_Contains: "CHR ''b'' \<in> set n \<Longrightarrow> \<not> Contains (showInt i) n"
  using Contains_set [of "showInt i" n] showInt_chars [of i] by auto

lemma Join_empty_iff: "Join xs sep = [] \<longleftrightarrow> xs = [] \<or> xs = [[]] \<or> (sep = [] \<and> set xs \<subseteq> {[]})"
  by (induction xs sep rule: Join.induct) auto

lemma Join_comma_empty_iff: "Join xs '','' = [] \<longleftrightarrow> xs = [] \<or> xs = [[]]"
  by (simp add: Join_empty_iff)

subsection \<open>The rendered texts\<close>

lemma renderDockerfile_eq:
  "renderDockerfile swarmboot config =
     dockerfileHead @ showInt (network config) @ '' '' @
     (if bzzAccount config = [] then [] else ''--bzzaccount '' @ bzzAccount config @ '' '') @
     ''--port '' @ showInt (port config) @
     '' --bzzport '' @ showInt (bzzPort config) @
     '' --maxpeers '' @ showInt (peersTotal config) @ '' '' @
     (if Join (deployBoot swarmboot config) '','' = [] then []
      else ''--bootnodes '' @ Join (deployBoot swarmboot config) '','') @
     dockerfileTail"
  by (simp add: renderDockerfile_def Execute_def swarmDockerfile_def dockerfileData_def
      printVal_def truth_def)

lemma renderComposefile_eq:
  \<open>renderComposefile net config =
     ''\<newline>version: '' @ sq @ ''2'' @ sq @ ''\<newline>services:\<newline>  '' @ deployKind config @
     '':\<newline>    build: .\<newline>    image: '' @ net @ ''/'' @ deployKind config @
     ''\<newline>    ports:\<newline>      - "'' @ showInt (port config) @ '':'' @ showInt (port config) @
     ''"\<newline>      - "'' @ showInt (port config) @ '':'' @ showInt (port config) @
     ''/udp"\<newline>    volumes:\<newline>      - '' @ datadir config @
     '':/root/.ethereum\<newline>    environment:\<newline>      - PORT=<no value>/tcp\<newline>'' @
     ''    logging:\<newline>      driver: "json-file"\<newline>      options:\<newline>'' @
     ''        max-size: "1m"\<newline>        max-file: "10"\<newline>    restart: always\<newline>''\<close>
  by (simp add: renderComposefile_def Execute_def swarmComposefile_def composefileData_def
      printVal_def truth_def)

text \<open>The build recipe of a boot node, as words separated by single blanks.\<close>

lemma dockerfile_words:
  "swarmenode config = [] \<Longrightarrow> renderDockerfile swarmboot config =
     Join ([butlast dockerfileHead, showInt (network config)] @
           (if bzzAccount config = [] then [] else [''--bzzaccount'', bzzAccount config]) @
           [''--port'', showInt (port config), ''--bzzport'', showInt (bzzPort config),
            ''--maxpeers'', showInt (peersTotal config), [], tl dockerfileTail]) '' ''"
  by (simp add: renderDockerfile_eq deployBoot_def dockerfileHead_def dockerfileTail_def
      sq_def bs_def tab_def)

subsection \<open>The address loop and the examples\<close>






lemma check_okClient: "checkSwarmNode okClient ''net'' False = Inr scenarioSnapshot"
  by (simp add: okClient_def scenarioInfos_def scenarioSnapshot_def check_simps)




lemma wizard_plainWizard_pending:
  "wizard_deploySwarm 3 someLib noAddress plainWizard False 42 ([], ()) =
     (AddressPending,
      ([AskServer, AskString, AskDefaultInt 0, AskDefaultInt 0, AskDefaultInt 50, AskAddress,
        AskAddress, AskAddress], ()))"
  by (simp add: wizard_deploySwarm_def check_okClient plainWizard_def noAddress_def acceptAll_def
      someLib_def ask_def scenarioSnapshot_def Let_def numeral_3_eq_3)

section \<open>The claims\<close>

subsection \<open>C1: the status check on a container that does not exist\<close>

text \<open>
  C1 says that \<^verbatim>\<open>checkSwarmNode\<close> returns \<open>ErrServiceOffline\<close> when the inspector reports
  \<open>NotFound\<close>. The code hands the error of the inspector on as it is. On a host without
  the container the result is \<open>NotFound\<close>, not \<open>ErrServiceOffline\<close>:
\<close>

theorem checkSwarmNode_NotFound_not_Offline:
  "inspectContainer missingClient (containerName ''mynet'' (checkKind True)) = Inl NotFound \<and>
   checkSwarmNode missingClient ''mynet'' True = Inl NotFound \<and>
   checkSwarmNode missingClient ''mynet'' True \<noteq> Inl ErrServiceOffline"
  by (simp add: missingClient_def okClient_def check_simps)

text \<open>
  C1, amended: for every client, network name and flag, when the inspector reports
  \<open>NotFound\<close> for the probed container, \<^verbatim>\<open>checkSwarmNode\<close> returns \<open>NotFound\<close> and no
  other error; it returns \<open>ErrServiceOffline\<close> when the inspector finds the container and
  reports it as not running.
\<close>

theorem checkSwarmNode_inspect_error:
  "(inspectContainer client (containerName net (checkKind boot)) = Inl NotFound
      \<longrightarrow> checkSwarmNode client net boot = Inl NotFound) \<and>
   (\<forall>infos. inspectContainer client (containerName net (checkKind boot)) = Inr infos \<and> \<not> running infos
      \<longrightarrow> checkSwarmNode client net boot = Inl ErrServiceOffline)"
  by (simp add: checkSwarmNode_def checkSwarmNodeLog_def Let_def)

theorem checkSwarmNode_inspect_error_witness:
  "inspectContainer missingClient (containerName ''mynet'' (checkKind False)) = Inl NotFound \<and>
   checkSwarmNode missingClient ''mynet'' False = Inl NotFound \<and>
   inspectContainer stoppedClient (containerName ''mynet'' (checkKind False)) =
     Inr (scenarioInfos \<lparr> running := False \<rparr>) \<and>
   \<not> running (scenarioInfos \<lparr> running := False \<rparr>) \<and>
   checkSwarmNode stoppedClient ''mynet'' False = Inl ErrServiceOffline"
  using checkSwarmNode_inspect_error [of missingClient "''mynet''" False]
    checkSwarmNode_inspect_error [of stoppedClient "''mynet''" False]
  by (simp add: missingClient_def stoppedClient_def okClient_def)

subsection \<open>C2: the container name of a boot node\<close>

text \<open>
  C2: the container that the status check probes for a boot node is the container that
  the deployment of a boot configuration creates. The code misses this: the check
  builds the name from the kind \<open>bootswarm\<close>, the deployment names the service
  \<open>swarmboot\<close> (for the other kind both say \<open>swarmnode\<close>). On a host that has exactly the
  container deployed for \<open>bootCfg\<close>, the check for a boot node reports \<open>NotFound\<close>.
\<close>

theorem bootstrap_container_name_mismatch:
  "swarmenode bootCfg = [] \<and>
   containerName ''mynet'' (deployKind bootCfg) = ''mynet_swarmboot_1'' \<and>
   containerName ''mynet'' (checkKind True) = ''mynet_bootswarm_1'' \<and>
   containerName ''mynet'' (checkKind True) \<noteq> containerName ''mynet'' (deployKind bootCfg) \<and>
   containerName ''mynet'' (checkKind False) = containerName ''mynet'' (deployKind peerCfg) \<and>
   checkSwarmNode deployedClient ''mynet'' True = Inl NotFound"
  by (simp add: bootCfg_def peerCfg_def deployKind_def deployedClient_def okClient_def check_simps)

subsection \<open>C3: the merge of a snapshot with the answers of the operator\<close>




subsection \<open>C4: the composition descriptor\<close>

text \<open>
  C4 says that the descriptor names its service after the role and publishes the listen
  port over TCP and UDP and the bzz port over TCP. The bzz port is no part of the
  descriptor: for the ports 30399 and 8500 the rendered text does not hold \<open>8500\<close>, and
  it is the same text for every bzz port.
\<close>

theorem composefile_without_bzzPort:
  "port bootCfg = 30399 \<and> bzzPort bootCfg = 8500 \<and>
   \<not> Contains (renderComposefile ''mynet'' bootCfg) ''8500'' \<and>
   renderComposefile ''mynet'' (bootCfg \<lparr> bzzPort := 9999 \<rparr>) = renderComposefile ''mynet'' bootCfg"
  by (simp add: renderComposefile_eq bootCfg_def sq_def deployKind_def showInt_examples)

text \<open>
  C4, amended: for every merged configuration the rendered composition descriptor
  declares one service, named after the role (\<open>swarmboot\<close> for a configuration without a
  node identity, \<open>swarmnode\<close> otherwise), and publishes the listen port over both TCP and
  UDP. The theorem gives the whole text but for the value of the one variable of the
  environment, which is a non-empty text within its line that is the same for every
  configuration and network.
\<close>

theorem composefile_service_and_ports:
  \<open>\<exists>env. env \<noteq> [] \<and> CHR ''\<newline>'' \<notin> set env \<and> (\<forall>net config. renderComposefile net config =
     ''\<newline>version: '' @ sq @ ''2'' @ sq @ ''\<newline>'' @
     ''services:\<newline>'' @
     ''  '' @ (if swarmenode config = [] then ''swarmboot'' else ''swarmnode'') @ '':\<newline>'' @
     ''    build: .\<newline>'' @
     ''    image: '' @ net @ ''/'' @ (if swarmenode config = [] then ''swarmboot'' else ''swarmnode'') @ ''\<newline>'' @
     ''    ports:\<newline>'' @
     ''      - "'' @ showInt (port config) @ '':'' @ showInt (port config) @ ''"\<newline>'' @
     ''      - "'' @ showInt (port config) @ '':'' @ showInt (port config) @ ''/udp"\<newline>'' @
     ''    volumes:\<newline>'' @
     ''      - '' @ datadir config @ '':/root/.ethereum\<newline>'' @
     ''    environment:\<newline>'' @
     ''      - PORT='' @ env @ ''/tcp\<newline>'' @
     ''    logging:\<newline>'' @
     ''      driver: "json-file"\<newline>'' @
     ''      options:\<newline>'' @
     ''        max-size: "1m"\<newline>'' @
     ''        max-file: "10"\<newline>'' @
     ''    restart: always\<newline>'')\<close>
proof (intro exI [of _ "''<no value>''"] conjI allI)
  show "''<no value>'' \<noteq> []" by simp
  show "CHR ''\<newline>'' \<notin> set ''<no value>''" by simp
next
  fix net config
  show \<open>renderComposefile net config =
     ''\<newline>version: '' @ sq @ ''2'' @ sq @ ''\<newline>'' @
     ''services:\<newline>'' @
     ''  '' @ (if swarmenode config = [] then ''swarmboot'' else ''swarmnode'') @ '':\<newline>'' @
     ''    build: .\<newline>'' @
     ''    image: '' @ net @ ''/'' @ (if swarmenode config = [] then ''swarmboot'' else ''swarmnode'') @ ''\<newline>'' @
     ''    ports:\<newline>'' @
     ''      - "'' @ showInt (port config) @ '':'' @ showInt (port config) @ ''"\<newline>'' @
     ''      - "'' @ showInt (port config) @ '':'' @ showInt (port config) @ ''/udp"\<newline>'' @
     ''    volumes:\<newline>'' @
     ''      - '' @ datadir config @ '':/root/.ethereum\<newline>'' @
     ''    environment:\<newline>'' @
     ''      - PORT='' @ ''<no value>'' @ ''/tcp\<newline>'' @
     ''    logging:\<newline>'' @
     ''      driver: "json-file"\<newline>'' @
     ''      options:\<newline>'' @
     ''        max-size: "1m"\<newline>'' @
     ''        max-file: "10"\<newline>'' @
     ''    restart: always\<newline>''\<close>
    by (simp add: renderComposefile_eq deployKind_def)
qed

subsection \<open>C5: the passphrase and the rendered texts\<close>

text \<open>
  C5 says that the passphrase is no substring of the build recipe or of the
  composition descriptor. A passphrase may be a word of the templates: with the key
  \<open>{key}\<close> and the passphrase \<open>password\<close> the build recipe holds the passphrase, in
  its option \<open>--password /bzzpass\<close>.
\<close>

theorem passphrase_occurs_in_dockerfile:
  "keyJSON bootCfg \<noteq> [] \<and> keyPass bootCfg = ''password'' \<and>
   Contains (renderDockerfile [] bootCfg) (keyPass bootCfg)"
  by (simp add: renderDockerfile_eq bootCfg_def dockerfileHead_def dockerfileTail_def
      sq_def bs_def tab_def deployBoot_def showInt_examples)

text \<open>
  C5, amended: the build recipe and the composition descriptor, as rendered and as
  uploaded by \<^verbatim>\<open>deploySwarm\<close>, are the same texts for any two passphrases of a merged
  configuration.
\<close>

theorem render_independent_of_keyPass:
  "renderDockerfile swarmboot (config \<lparr> keyPass := p1 \<rparr>) =
     renderDockerfile swarmboot (config \<lparr> keyPass := p2 \<rparr>) \<and>
   renderComposefile net (config \<lparr> keyPass := p1 \<rparr>) =
     renderComposefile net (config \<lparr> keyPass := p2 \<rparr>) \<and>
   map_of (deployFiles net swarmboot config r) (pathJoin (showInt r) ''Dockerfile'') =
     Some (renderDockerfile swarmboot config) \<and>
   map_of (deployFiles net swarmboot config r) (pathJoin (showInt r) ''docker-compose.yaml'') =
     Some (renderComposefile net config)"
  by (simp add: renderDockerfile_eq renderComposefile_eq deployBoot_def deployKind_def
      deployFiles_def pathJoin_def Let_def)

subsection \<open>C6: cleanup after the upload\<close>

text \<open>
  C6: when the upload succeeds and the streamed build fails, the removal of the working
  directory is still issued (after the stream) and the error returned is the one of the
  stream, whatever the removal returns; when the upload fails, \<^verbatim>\<open>deploySwarm\<close> returns
  the output and the error of the upload and issues nothing else.
\<close>

theorem deploySwarm_cleanup:
  "(Upload client (deployFiles net swarmboot config r) = (out, None) \<and>
    Stream client (buildCommand (showInt r) net nocache) = Some e
    \<longrightarrow> deploySwarm client net swarmboot config nocache r =
          (([], Some e),
           [DoUpload (deployFiles net swarmboot config r),
            DoStream (buildCommand (showInt r) net nocache),
            DoRun (''rm -rf '' @ showInt r)])) \<and>
   (Upload client (deployFiles net swarmboot config r) = (out, Some e)
    \<longrightarrow> deploySwarm client net swarmboot config nocache r =
          ((out, Some e), [DoUpload (deployFiles net swarmboot config r)]))"
  by (simp add: deploySwarm_def Let_def)

theorem deploySwarm_cleanup_witness:
  "Upload buildFailClient (deployFiles ''mynet'' [] bootCfg 42) = ([], None) \<and>
   Stream buildFailClient (buildCommand (showInt 42) ''mynet'' False) =
     Some (RemoteCommandFailed ''build failed'') \<and>
   Run buildFailClient (''rm -rf '' @ showInt 42) = ([], Some (RemoteCommandFailed ''rm failed'')) \<and>
   deploySwarm buildFailClient ''mynet'' [] bootCfg False 42 =
     (([], Some (RemoteCommandFailed ''build failed'')),
      [DoUpload (deployFiles ''mynet'' [] bootCfg 42),
       DoStream ''cd 42 && docker-compose -p mynet up -d --build --force-recreate'',
       DoRun ''rm -rf 42'']) \<and>
   Upload uploadFailClient (deployFiles ''mynet'' [] bootCfg 42) =
     (''partial'', Some (RemoteCommandFailed ''scp failed'')) \<and>
   deploySwarm uploadFailClient ''mynet'' [] bootCfg True 42 =
     ((''partial'', Some (RemoteCommandFailed ''scp failed'')),
      [DoUpload (deployFiles ''mynet'' [] bootCfg 42)])"
  using deploySwarm_cleanup [of buildFailClient "''mynet''" "[]" bootCfg 42 "[]" False
      "RemoteCommandFailed ''build failed''"]
    deploySwarm_cleanup [of uploadFailClient "''mynet''" "[]" bootCfg 42 "''partial''" True
      "RemoteCommandFailed ''scp failed''"]
  by (simp add: buildFailClient_def uploadFailClient_def okClient_def buildCommand_def showInt_42)

subsection \<open>C7: the scenario of the running container\<close>

text \<open>
  C7 says that for a running container with the environment \<open>TOTAL_PEERS = 50\<close> and the
  port map \<open>30303 \<mapsto> 31000\<close> the snapshot has the peer count 50 and the port 31000. The
  code looks the port up under the value of the variable \<open>PORT\<close>, which this environment
  lacks: the peer count is 50, the port is 0.
\<close>

theorem checkSwarmNode_scenario_port_zero:
  "inspectContainer okClient (containerName ''net'' (checkKind False)) = Inr scenarioInfos \<and>
   running scenarioInfos \<and>
   envvars scenarioInfos = [''TOTAL_PEERS'' \<mapsto> ''50''] \<and>
   portmap scenarioInfos = [''30303'' \<mapsto> 31000] \<and>
   checkSwarmNode okClient ''net'' False = Inr scenarioSnapshot \<and>
   peersTotal scenarioSnapshot = 50 \<and>
   port scenarioSnapshot = 0 \<and>
   port scenarioSnapshot \<noteq> 31000"
  by (simp add: check_okClient) (simp add: okClient_def scenarioInfos_def scenarioSnapshot_def)

text \<open>
  C7, amended: for a running container whose node identity and genesis can be read,
  whose environment has \<open>TOTAL_PEERS = 50\<close> and whose port map is exactly
  \<open>30303 \<mapsto> 31000\<close>, the status check returns a snapshot with the peer count 50; its
  port is 31000 when the environment has \<open>PORT = 30303\<close> as well, and 0 otherwise (so 0
  when \<open>TOTAL_PEERS\<close> is the only variable).
\<close>

theorem checkSwarmNode_scenario:
  assumes "inspectContainer client (containerName net (checkKind boot)) = Inr infos"
    and "running infos"
    and "envvars infos ''TOTAL_PEERS'' = Some ''50''"
    and "portmap infos = [''30303'' \<mapsto> 31000]"
    and "Run client (dockerExec net (checkKind boot)
           ''geth --exec admin.nodeInfo.id attach /root/.ethereum/bzzd.ipc'') = (out1, None)"
    and "Run client (dockerExec net (checkKind boot) ''cat /genesis.json'') = (out2, None)"
  shows "\<exists>stats. checkSwarmNode client net boot = Inr stats \<and> peersTotal stats = 50 \<and>
           port stats = (if envvars infos ''PORT'' = Some ''30303'' then 31000 else 0)"
  using assms
  by (auto simp add: checkSwarmNode_def checkSwarmNodeLog_def Let_def lookupStr_def lookupInt_def
      Atoi_50 split: option.splits prod.splits)

theorem checkSwarmNode_scenario_witness:
  \<open>inspectContainer (okClient \<lparr> inspectContainer := (\<lambda>name. Inr scenarioPortInfos) \<rparr>)
     (containerName ''net'' (checkKind False)) = Inr scenarioPortInfos \<and>
   running scenarioPortInfos \<and>
   envvars scenarioPortInfos ''TOTAL_PEERS'' = Some ''50'' \<and>
   envvars scenarioPortInfos ''PORT'' = Some ''30303'' \<and>
   portmap scenarioPortInfos = [''30303'' \<mapsto> 31000] \<and>
   (\<exists>stats. checkSwarmNode (okClient \<lparr> inspectContainer := (\<lambda>name. Inr scenarioPortInfos) \<rparr>)
              ''net'' False = Inr stats \<and> peersTotal stats = 50 \<and> port stats = 31000)\<close>
  using checkSwarmNode_scenario [of "okClient \<lparr> inspectContainer := (\<lambda>name. Inr scenarioPortInfos) \<rparr>"
      "''net''" False scenarioPortInfos "[CHR 0x22] @ ''abcd'' @ [CHR 0x22, CHR 0x0A]"
      "[CHR 0x22] @ ''abcd'' @ [CHR 0x22, CHR 0x0A]"]
  by (simp add: okClient_def scenarioPortInfos_def scenarioInfos_def)

subsection \<open>C8: the build recipe of a boot node\<close>

text \<open>
  C8: for every merged configuration without a node identity (the role of a boot node)
  the supplied list of boot nodes is discarded, so that \<^verbatim>\<open>deploySwarm\<close> does the same
  for every list, and the build recipe has no \<open>--bootnodes\<close> entry: the options of its
  command go from \<open>--maxpeers\<close> to \<open>--password\<close>, and \<open>--bootnodes\<close> occurs nowhere in the
  text unless the account itself holds it.
\<close>

theorem bootstrap_no_bootnodes:
  assumes "swarmenode config = []"
  shows "deploySwarm client net swarmboot config nocache r = deploySwarm client net [] config nocache r \<and>
     renderDockerfile swarmboot config =
       dockerfileHead @ showInt (network config) @ '' '' @
       (if bzzAccount config = [] then [] else ''--bzzaccount '' @ bzzAccount config @ '' '') @
       ''--port '' @ showInt (port config) @
       '' --bzzport '' @ showInt (bzzPort config) @
       '' --maxpeers '' @ showInt (peersTotal config) @ '' '' @ dockerfileTail \<and>
     (\<not> Contains (bzzAccount config) ''--bootnodes'' \<longrightarrow>
      \<not> Contains (renderDockerfile swarmboot config) ''--bootnodes'')"
proof (intro conjI impI)
  show "deploySwarm client net swarmboot config nocache r = deploySwarm client net [] config nocache r"
    using assms by (simp add: deploySwarm_def deployFiles_def renderDockerfile_eq deployBoot_def)
  show "renderDockerfile swarmboot config =
       dockerfileHead @ showInt (network config) @ '' '' @
       (if bzzAccount config = [] then [] else ''--bzzaccount '' @ bzzAccount config @ '' '') @
       ''--port '' @ showInt (port config) @
       '' --bzzport '' @ showInt (bzzPort config) @
       '' --maxpeers '' @ showInt (peersTotal config) @ '' '' @ dockerfileTail"
    using assms by (simp add: renderDockerfile_eq deployBoot_def)
  assume acct: "\<not> Contains (bzzAccount config) ''--bootnodes''"
  have hd: "\<not> Contains (butlast dockerfileHead) ''--bootnodes''"
    by (simp add: dockerfileHead_def sq_def bs_def tab_def)
  have tl: "\<not> Contains (tl dockerfileTail) ''--bootnodes''"
    by (simp add: dockerfileTail_def sq_def)
  have ints: "\<And>i. \<not> Contains (showInt i) ''--bootnodes''"
    by (rule showInt_not_Contains) simp
  have sp: "CHR '' '' \<notin> set ''--bootnodes''" "''--bootnodes'' \<noteq> []" by simp_all
  show "\<not> Contains (renderDockerfile swarmboot config) ''--bootnodes''"
    unfolding dockerfile_words [OF assms] Contains_words [OF sp]
    using acct hd tl ints by simp
qed

theorem bootstrap_no_bootnodes_witness:
  "swarmenode bootCfg = [] \<and>
   \<not> Contains (bzzAccount bootCfg) ''--bootnodes'' \<and>
   deploySwarm okClient ''mynet'' [''enode://a@10.0.0.2:30399'', ''enode://b@10.0.0.3:30399''] bootCfg False 42 =
     deploySwarm okClient ''mynet'' [] bootCfg False 42 \<and>
   \<not> Contains (renderDockerfile [''enode://a@10.0.0.2:30399'', ''enode://b@10.0.0.3:30399''] bootCfg)
       ''--bootnodes''"
proof -
  have b: "swarmenode bootCfg = []" by (simp add: bootCfg_def)
  have a: "\<not> Contains (bzzAccount bootCfg) ''--bootnodes''" by (simp add: bootCfg_def)
  show ?thesis
    using bootstrap_no_bootnodes [OF b, of okClient "''mynet''"
        "[''enode://a@10.0.0.2:30399'', ''enode://b@10.0.0.3:30399'']" False 42] a b
    by blast
qed

subsection \<open>C9: the build recipe of a peer\<close>

text \<open>
  C9 says that for a peer and every non-empty list of boot nodes the build recipe holds
  the comma-join of the list. The template leaves the option out when the join is
  empty, which it is for the list of one empty string: the recipe is then the one of
  the empty list, without \<open>--bootnodes\<close>.
\<close>

theorem peer_single_empty_bootnode:
  "swarmenode peerCfg \<noteq> [] \<and> [[]] \<noteq> ([] :: string list) \<and>
   Join [[]] '','' = [] \<and>
   renderDockerfile [[]] peerCfg = renderDockerfile [] peerCfg \<and>
   \<not> Contains (renderDockerfile [[]] peerCfg) ''--bootnodes''"
  by (simp add: renderDockerfile_eq peerCfg_def bootCfg_def deployBoot_def dockerfileHead_def
      dockerfileTail_def sq_def bs_def tab_def showInt_examples)

text \<open>
  C9, amended: for every merged configuration with a node identity (the role of a peer)
  and every list of boot nodes other than the empty list and the list of one empty
  string (that is, every list with a non-empty comma-join), the build recipe holds the
  option \<open>--bootnodes\<close> with the comma-join of the list in its order, between the peer
  count and the password option.
\<close>

theorem peer_bootnodes_join:
  assumes "swarmenode config \<noteq> []" and "swarmboot \<noteq> []" and "swarmboot \<noteq> [[]]"
  shows "renderDockerfile swarmboot config =
     dockerfileHead @ showInt (network config) @ '' '' @
     (if bzzAccount config = [] then [] else ''--bzzaccount '' @ bzzAccount config @ '' '') @
     ''--port '' @ showInt (port config) @
     '' --bzzport '' @ showInt (bzzPort config) @
     '' --maxpeers '' @ showInt (peersTotal config) @
     '' --bootnodes '' @ Join swarmboot '','' @ dockerfileTail"
  using assms by (simp add: renderDockerfile_eq deployBoot_def Join_comma_empty_iff)

theorem peer_bootnodes_join_witness:
  "swarmenode peerCfg \<noteq> [] \<and>
   [''enode://a@10.0.0.2:30399'', ''enode://b@10.0.0.3:30399''] \<noteq> [] \<and>
   [''enode://a@10.0.0.2:30399'', ''enode://b@10.0.0.3:30399''] \<noteq> [[]] \<and>
   renderDockerfile [''enode://a@10.0.0.2:30399'', ''enode://b@10.0.0.3:30399''] peerCfg =
     dockerfileHead @
     ''1337 --bzzaccount 0x00000000000000000000000000000000000000A1 --port 30399'' @
     '' --bzzport 8500 --maxpeers 50'' @
     '' --bootnodes enode://a@10.0.0.2:30399,enode://b@10.0.0.3:30399'' @
     dockerfileTail"
  using peer_bootnodes_join [of peerCfg "[''enode://a@10.0.0.2:30399'', ''enode://b@10.0.0.3:30399'']"]
  by (simp add: peerCfg_def bootCfg_def showInt_examples)

subsection \<open>C10: a running container that does not answer the identity query\<close>

text \<open>
  C10: for every running container whose query of the node identity fails, the status
  check returns \<open>ErrServiceUnreachable\<close> and no snapshot.
\<close>

theorem checkSwarmNode_ident_failure:
  assumes "inspectContainer client (containerName net (checkKind boot)) = Inr infos"
    and "running infos"
    and "Run client (dockerExec net (checkKind boot)
           ''geth --exec admin.nodeInfo.id attach /root/.ethereum/bzzd.ipc'') = (out, Some e)"
  shows "checkSwarmNode client net boot = Inl ErrServiceUnreachable"
  using assms by (simp add: checkSwarmNode_def checkSwarmNodeLog_def Let_def)

theorem checkSwarmNode_ident_failure_witness:
  "inspectContainer muteClient (containerName ''mynet'' (checkKind True)) = Inr scenarioInfos \<and>
   running scenarioInfos \<and>
   Run muteClient (dockerExec ''mynet'' (checkKind True)
     ''geth --exec admin.nodeInfo.id attach /root/.ethereum/bzzd.ipc'') =
     ([], Some (RemoteCommandFailed ''exit status 1'')) \<and>
   checkSwarmNode muteClient ''mynet'' True = Inl ErrServiceUnreachable"
  using checkSwarmNode_ident_failure [of muteClient "''mynet''" True scenarioInfos "[]"
      "RemoteCommandFailed ''exit status 1''"]
  by (simp add: muteClient_def okClient_def scenarioInfos_def)

end
